theory Spec2Isabelle
  imports Complex_Main
begin

section \<open>Errors and matrices\<close>

text \<open>
  Exceptions of the Python source are values: a function that can raise returns
  \<open>error + 'a\<close>, with \<open>Inl\<close> for the exception.
\<close>

datatype error =
  AttributeError | TypeError | IndexError | UnboundLocalError | ValueError | NotImplementedError

text \<open>
  A two-dimensional numpy array is a list of rows. The connectivity and cut matrices hold
  only the floats 0.0 and 1.0, which are written as integers here; the product of such an
  entry with any other number is exact.
\<close>

type_synonym matrix = "int list list"

definition relevant_connections :: "nat \<Rightarrow> nat list \<Rightarrow> nat list \<Rightarrow> matrix" where
  \<comment> \<open>Modelled from the spec: \<open>utils.relevant_connections(n, from_indices, to_indices)\<close> is not
      part of the sources at hand. The spec gives an n by n 0/1 matrix whose entry [i, j] is 1
      iff i is one of the from-indices and j one of the to-indices. The spec says nothing about
      an index that is not below n; no theorem below depends on such an index.\<close>
  "relevant_connections n from_indices to_indices =
     map (\<lambda>i. map (\<lambda>j. if i \<in> set from_indices \<and> j \<in> set to_indices then 1 else 0) [0..<n])
       [0..<n]"

definition submatrix :: "matrix \<Rightarrow> nat list \<Rightarrow> nat list \<Rightarrow> error + matrix" where
  \<comment> \<open>Modelled from the spec: \<open>utils.submatrix(matrix, row_indices, col_indices)\<close> is not part
      of the sources at hand. The spec gives the matrix restricted to the given rows and
      columns, in the order given. Indexing a numpy array out of range raises IndexError.\<close>
  "submatrix cm rows cols =
     (if (\<forall>r \<in> set rows. r < length cm \<and> (\<forall>c \<in> set cols. c < length (cm ! r)))
      then Inr (map (\<lambda>r. map (\<lambda>c. cm ! r ! c) cols) rows)
      else Inl IndexError)"

section \<open>Cut\<close>

text \<open>\<open>class Cut(namedtuple('Cut', ['severed', 'intact']))\<close>; node indices are naturals.\<close>

record cut =
  severed :: "nat list"
  intact :: "nat list"

definition truthy_set :: "nat set \<Rightarrow> bool" where
  \<comment> \<open>Python's truth value of a set: it is true iff it is not empty.\<close>
  "truthy_set s = (s \<noteq> {})"

definition splits_mechanism :: "cut \<Rightarrow> nat list \<Rightarrow> nat set" where
  \<comment> \<open>\<open>(set(mechanism) & set(self[0])) and (set(mechanism) & set(self[1]))\<close>: the value of
      \<open>x and y\<close> is x when x is false and y otherwise, so the method returns a set.\<close>
  "splits_mechanism c mechanism =
     (let x = set mechanism \<inter> set (severed c)
      in if truthy_set x then set mechanism \<inter> set (intact c) else x)"




section \<open>Mice and the subsystem it is damaged in\<close>

text \<open>
  The subsystem is a collaborator; \<open>damaged_by_cut\<close> reads its \<open>network.size\<close>,
  \<open>node_indices\<close>, \<open>cut\<close> and \<open>cut_matrix\<close>. Of the Mice it reads the direction (a string,
  \<open>DIRECTIONS[PAST]\<close> or \<open>DIRECTIONS[FUTURE]\<close>), the mechanism and the purview.
\<close>

record subsystem =
  network_size :: nat
  node_indices :: "nat list"
  subsystem_cut :: cut
  subsystem_cut_matrix :: matrix

record mice_view =
  mv_direction :: string
  mv_mechanism :: "nat list"
  mv_purview :: "nat list"

definition DIRECTIONS_PAST :: string where
  \<comment> \<open>Modelled from the spec: \<open>constants.DIRECTIONS[PAST]\<close>, the CAUSE direction.\<close>
  "DIRECTIONS_PAST = ''past''"

definition DIRECTIONS_FUTURE :: string where
  \<comment> \<open>Modelled from the spec: \<open>constants.DIRECTIONS[FUTURE]\<close>, the EFFECT direction.\<close>
  "DIRECTIONS_FUTURE = ''future''"

definition mice_relevant_connections :: "mice_view \<Rightarrow> subsystem \<Rightarrow> error + matrix" where
  \<comment> \<open>\<open>Mice._relevant_connections\<close>. With a direction that is neither constant, \<open>_from\<close> is
      unbound when it is read.\<close>
  "mice_relevant_connections m s =
     (if mv_direction m = DIRECTIONS_PAST
      then submatrix (relevant_connections (network_size s) (mv_purview m) (mv_mechanism m))
             (node_indices s) (node_indices s)
      else if mv_direction m = DIRECTIONS_FUTURE
      then submatrix (relevant_connections (network_size s) (mv_mechanism m) (mv_purview m))
             (node_indices s) (node_indices s)
      else Inl UnboundLocalError)"

definition same_shape :: "matrix \<Rightarrow> matrix \<Rightarrow> bool" where
  "same_shape a b = (length a = length b \<and> list_all2 (\<lambda>r r'. length r = length r') a b)"

definition elementwise_product :: "matrix \<Rightarrow> matrix \<Rightarrow> error + matrix" where
  \<comment> \<open>\<open>a * b\<close> on numpy arrays of one shape. For two different shapes numpy broadcasts or
      raises ValueError; broadcasting is not modelled, and the theorems assume one shape.\<close>
  "elementwise_product a b =
     (if same_shape a b then Inr (map2 (\<lambda>r r'. map2 (\<lambda>x y. x * y) r r') a b)
      else Inl ValueError)"

definition any_equal_one :: "matrix \<Rightarrow> bool" where
  \<comment> \<open>\<open>np.any(a == 1)\<close>\<close>
  "any_equal_one a = (\<exists>r \<in> set a. \<exists>x \<in> set r. x = 1)"

definition damaged_by_cut :: "mice_view \<Rightarrow> subsystem \<Rightarrow> error + bool" where
  \<comment> \<open>\<open>Mice.damaged_by_cut\<close>; the result is the truth value of the Python value returned (the
      set of \<open>splits_mechanism\<close> or numpy's bool). \<open>or\<close> does not evaluate its second operand
      when the first is true.\<close>
  "damaged_by_cut m s =
     (if truthy_set (splits_mechanism (subsystem_cut s) (mv_mechanism m)) then Inr True
      else case mice_relevant_connections m s of
             Inl e \<Rightarrow> Inl e
           | Inr rc \<Rightarrow> (case elementwise_product rc (subsystem_cut_matrix s) of
                          Inl e \<Rightarrow> Inl e
                        | Inr p \<Rightarrow> Inr (any_equal_one p)))"

section \<open>Python values\<close>

text \<open>
  The attributes that equality and ordering read hold \<open>None\<close>, numbers, strings, tuples,
  numpy arrays and objects. Python's int and float compare by value (\<open>1 == 1.0\<close>), so both are
  one constructor over the reals; floating-point rounding is not modelled. An array is its
  shape and its elements in row-major order. An object is its class name and its attributes;
  a property is an attribute that holds the value the property returns.
\<close>

datatype pyval =
    PyNone
  | PyNum real
  | PyStr string
  | PyTuple "pyval list"
  | PyArray "nat list" "real list"
  | PyObj string "(string \<times> pyval) list"

definition and_then :: "error + 'a \<Rightarrow> ('a \<Rightarrow> error + 'b) \<Rightarrow> error + 'b" where
  \<comment> \<open>Sequencing: an exception raised by the first computation ends the whole one.\<close>
  "and_then r f = (case r of Inl e \<Rightarrow> Inl e | Inr v \<Rightarrow> f v)"

fun getattr :: "pyval \<Rightarrow> string \<Rightarrow> error + pyval" where
  "getattr (PyObj cls attrs) name =
     (case map_of attrs name of None \<Rightarrow> Inl AttributeError | Some v \<Rightarrow> Inr v)"
| "getattr _ name = Inl AttributeError"

definition getattr_default :: "pyval \<Rightarrow> string \<Rightarrow> pyval \<Rightarrow> pyval" where
  \<comment> \<open>\<open>getattr(obj, name, default)\<close>\<close>
  "getattr_default obj name d = (case getattr obj name of Inl e \<Rightarrow> d | Inr v \<Rightarrow> v)"

fun truthy :: "pyval \<Rightarrow> error + bool" where
  \<comment> \<open>The truth value Python takes in \<open>x and y\<close>. numpy refuses the truth value of an array
      of more than one element. An object of a class without \<open>__bool__\<close> and \<open>__len__\<close> is true.\<close>
  "truthy PyNone = Inr False"
| "truthy (PyNum x) = Inr (x \<noteq> 0)"
| "truthy (PyStr s) = Inr (s \<noteq> [])"
| "truthy (PyTuple xs) = Inr (xs \<noteq> [])"
| "truthy (PyArray shape d) =
     (case d of [] \<Rightarrow> Inr False | [x] \<Rightarrow> Inr (x \<noteq> 0) | _ \<Rightarrow> Inl ValueError)"
| "truthy (PyObj cls attrs) = Inr True"

fun py_len :: "pyval \<Rightarrow> error + nat" where
  \<comment> \<open>\<open>len(x)\<close>. The length of an object is what its class's \<open>__len__\<close> returns, kept in the
      attribute of that name.\<close>
  "py_len (PyStr s) = Inr (length s)"
| "py_len (PyTuple xs) = Inr (length xs)"
| "py_len (PyArray (n # shape) d) = Inr n"
| "py_len (PyObj cls attrs) =
     (case map_of attrs ''__len__'' of Some (PyNum n) \<Rightarrow> Inr (nat \<lfloor>n\<rfloor>) | _ \<Rightarrow> Inl TypeError)"
| "py_len _ = Inl TypeError"

fun hashable :: "pyval \<Rightarrow> bool" where
  "hashable (PyTuple xs) = list_all hashable xs"
| "hashable (PyArray shape d) = False"
| "hashable _ = True"

fun py_set :: "pyval \<Rightarrow> error + pyval set" where
  \<comment> \<open>\<open>set(x)\<close>: the elements of an iterable, which must be hashable. Objects are taken not to
      be iterable.\<close>
  "py_set (PyTuple xs) = (if list_all hashable xs then Inr (set xs) else Inl TypeError)"
| "py_set (PyStr s) = Inr ((\<lambda>c. PyStr [c]) ` set s)"
| "py_set (PyArray [n] d) = Inr (PyNum ` set d)"
| "py_set _ = Inl TypeError"

fun asarray :: "pyval \<Rightarrow> nat list \<times> pyval list" where
  \<comment> \<open>\<open>np.asarray(x)\<close> as shape and elements: an array is itself, a tuple whose elements all
      have one shape is stacked, a tuple of elements of different shapes is a one-dimensional
      array of objects, and anything else is a zero-dimensional array.\<close>
  "asarray (PyArray shape d) = (shape, map PyNum d)"
| "asarray (PyTuple xs) =
     (let subs = map asarray xs
      in if xs = [] then ([0], [])
         else if \<forall>s \<in> set subs. fst s = fst (hd subs)
         then (length xs # fst (hd subs), concat (map snd subs))
         else ([length xs], xs))"
| "asarray v = ([], [v])"

definition np_array_equal :: "pyval \<Rightarrow> pyval \<Rightarrow> bool" where
  \<comment> \<open>\<open>np.array_equal(a, b)\<close>: the same shape and equal elements.\<close>
  "np_array_equal a b = (asarray a = asarray b)"

section \<open>Equality helpers\<close>

fun numpy_aware_eq :: "pyval \<Rightarrow> pyval \<Rightarrow> bool"
  and numpy_aware_eq_zip :: "pyval list \<Rightarrow> pyval list \<Rightarrow> bool" where
  \<comment> \<open>\<open>_numpy_aware_eq\<close>. Tuples are the iterables that are not strings; the second function is
      \<open>all(_numpy_aware_eq(x, y) for x, y in zip(a, b))\<close>. Python's \<open>a == b\<close> on the values that
      remain is equality of the values; for objects this stands for the \<open>__eq__\<close> of a class
      that compares by value.\<close>
  "numpy_aware_eq (PyArray s d) b = np_array_equal (PyArray s d) b"
| "numpy_aware_eq a (PyArray s d) = np_array_equal a (PyArray s d)"
| "numpy_aware_eq (PyTuple xs) (PyTuple ys) =
     (if length xs \<noteq> length ys then False else numpy_aware_eq_zip xs ys)"
| "numpy_aware_eq a b = (a = b)"
| "numpy_aware_eq_zip (x # xs) (y # ys) = (numpy_aware_eq x y \<and> numpy_aware_eq_zip xs ys)"
| "numpy_aware_eq_zip _ _ = True"

definition phi_eq :: "real \<Rightarrow> real \<Rightarrow> real \<Rightarrow> bool" where
  \<comment> \<open>Modelled from the spec: \<open>utils.phi_eq(a, b)\<close> is not part of the sources at hand. The
      spec gives: true iff \<open>|a - b|\<close> is within the configured precision, here \<open>eps\<close>.\<close>
  "phi_eq eps x y = (\<bar>x - y\<bar> \<le> eps)"

fun py_phi_eq :: "real \<Rightarrow> pyval \<Rightarrow> pyval \<Rightarrow> error + bool" where
  \<comment> \<open>\<open>utils.phi_eq\<close> on attribute values: the difference of two values that are not numbers
      is a TypeError.\<close>
  "py_phi_eq eps (PyNum x) (PyNum y) = Inr (phi_eq eps x y)"
| "py_phi_eq eps _ _ = Inl TypeError"

fun general_eq_loop :: "real \<Rightarrow> pyval \<Rightarrow> pyval \<Rightarrow> string list \<Rightarrow> error + bool" where
  \<comment> \<open>The body of the \<open>try\<close> in \<open>_general_eq\<close>. \<open>_a is None or _b is None and not _a == _b\<close> is
      \<open>_a is None or (_b is None and not _a == _b)\<close>.\<close>
  "general_eq_loop eps a b [] = Inr True"
| "general_eq_loop eps a b (attr # attributes) =
     and_then (getattr a attr) (\<lambda>a'. and_then (getattr b attr) (\<lambda>b'.
       if attr = ''phi'' then
         and_then (py_phi_eq eps a' b') (\<lambda>r.
           if \<not> r then Inr False else general_eq_loop eps a b attributes)
       else if attr = ''mechanism'' \<or> attr = ''purview'' then
         if a' = PyNone \<or> (b' = PyNone \<and> \<not> a' = b') then Inr False
         else and_then (py_set a') (\<lambda>sa. and_then (py_set b') (\<lambda>sb.
           if \<not> sa = sb then Inr False else general_eq_loop eps a b attributes))
       else
         if \<not> numpy_aware_eq a' b' then Inr False
         else general_eq_loop eps a b attributes))"

definition general_eq :: "real \<Rightarrow> pyval \<Rightarrow> pyval \<Rightarrow> string list \<Rightarrow> error + bool" where
  \<comment> \<open>\<open>_general_eq\<close>: \<open>except AttributeError: return False\<close>; any other exception goes on.\<close>
  "general_eq eps a b attributes =
     (case general_eq_loop eps a b attributes of
        Inl AttributeError \<Rightarrow> Inr False
      | r \<Rightarrow> r)"

section \<open>Equality of Mip, Mice and Concept\<close>

definition mip_eq_attrs :: "string list" where
  \<comment> \<open>\<open>attrs\<close> in \<open>Mip.__eq__\<close>\<close>
  "mip_eq_attrs = [''phi'', ''direction'', ''mechanism'', ''unpartitioned_repertoire'']"

definition Mip_eq :: "real \<Rightarrow> pyval \<Rightarrow> pyval \<Rightarrow> error + bool" where
  \<comment> \<open>\<open>Mip.__eq__(self, other)\<close>. \<open>self.purview and other.purview\<close> is evaluated outside
      the \<open>try\<close> of \<open>_general_eq\<close>, and reads \<open>other.purview\<close> only when \<open>self.purview\<close> is true.\<close>
  "Mip_eq eps self other =
     and_then (getattr self ''purview'') (\<lambda>sp. and_then (truthy sp) (\<lambda>t.
       if t then
         and_then (getattr other ''purview'') (\<lambda>op. and_then (truthy op) (\<lambda>t'.
           if t' then
             and_then (general_eq eps self other mip_eq_attrs) (\<lambda>g.
               if g then and_then (py_len sp) (\<lambda>n. and_then (py_len op) (\<lambda>k. Inr (n = k)))
               else Inr False)
           else general_eq eps self other mip_eq_attrs))
       else general_eq eps self other mip_eq_attrs))"

definition Mice_eq :: "real \<Rightarrow> pyval \<Rightarrow> pyval \<Rightarrow> error + bool" where
  \<comment> \<open>\<open>Mice.__eq__\<close>: \<open>self.mip == other.mip\<close>, where \<open>self.mip\<close> is a Mip.\<close>
  "Mice_eq eps self other =
     and_then (getattr self ''mip'') (\<lambda>m. and_then (getattr other ''mip'') (\<lambda>m'.
       Mip_eq eps m m'))"

fun node_index :: "pyval \<Rightarrow> nat option" where
  "node_index (PyNum x) = (if 0 \<le> x \<and> x = of_int \<lfloor>x\<rfloor> then Some (nat \<lfloor>x\<rfloor>) else None)"
| "node_index _ = None"

definition state_of :: "pyval \<Rightarrow> pyval \<Rightarrow> error + pyval" where
  \<comment> \<open>Modelled from the spec: \<open>utils.state_of(nodes, state)\<close> is not part of the sources at
      hand. The spec gives the projection of the subsystem's state to the mechanism, a tuple:
      the state of each node of the mechanism, in order.\<close>
  "state_of nodes state =
     (case (nodes, state) of
        (PyTuple ns, PyTuple st) \<Rightarrow>
          if \<exists>n \<in> set ns. node_index n = None then Inl TypeError
          else if \<exists>n \<in> set ns. length st \<le> the (node_index n) then Inl IndexError
          else Inr (PyTuple (map (\<lambda>n. st ! the (node_index n)) ns))
      | _ \<Rightarrow> Inl TypeError)"

definition eq_repertoires :: "pyval \<Rightarrow> pyval \<Rightarrow> error + bool" where
  \<comment> \<open>\<open>Concept.eq_repertoires\<close>\<close>
  "eq_repertoires self other =
     and_then (getattr self ''cause'') (\<lambda>sc.
     and_then (getattr self ''effect'') (\<lambda>se.
     and_then (getattr other ''cause'') (\<lambda>oc.
     and_then (getattr other ''effect'') (\<lambda>oe.
       let this_cr = getattr_default sc ''repertoire'' PyNone;
           this_er = getattr_default se ''repertoire'' PyNone;
           other_cr = getattr_default oc ''repertoire'' PyNone;
           other_er = getattr_default oe ''repertoire'' PyNone
       in Inr (np_array_equal this_cr other_cr \<and> np_array_equal this_er other_er)))))"

definition subsystem_state :: "pyval \<Rightarrow> error + pyval" where
  \<comment> \<open>\<open>obj.subsystem.state\<close>\<close>
  "subsystem_state obj = and_then (getattr obj ''subsystem'') (\<lambda>s. getattr s ''state'')"

definition subsystem_network :: "pyval \<Rightarrow> error + pyval" where
  \<comment> \<open>\<open>obj.subsystem.network\<close>\<close>
  "subsystem_network obj = and_then (getattr obj ''subsystem'') (\<lambda>s. getattr s ''network'')"

definition Concept_eq :: "pyval \<Rightarrow> pyval \<Rightarrow> error + bool" where
  \<comment> \<open>\<open>Concept.__eq__\<close>: the four purviews are read first, then the conjunction is evaluated
      from the left and stops at the first false operand. \<open>==\<close> is equality of the values.\<close>
  "Concept_eq self other =
     and_then (getattr self ''cause'') (\<lambda>sc.
     and_then (getattr other ''cause'') (\<lambda>oc.
     and_then (getattr self ''effect'') (\<lambda>se.
     and_then (getattr other ''effect'') (\<lambda>oe.
       let self_cause_purview = getattr_default sc ''purview'' PyNone;
           other_cause_purview = getattr_default oc ''purview'' PyNone;
           self_effect_purview = getattr_default se ''purview'' PyNone;
           other_effect_purview = getattr_default oe ''purview'' PyNone
       in
     and_then (getattr self ''phi'') (\<lambda>sphi.
     and_then (getattr other ''phi'') (\<lambda>ophi.
       if \<not> sphi = ophi then Inr False else
     and_then (getattr self ''mechanism'') (\<lambda>sm.
     and_then (getattr other ''mechanism'') (\<lambda>om.
       if \<not> sm = om then Inr False else
     and_then (subsystem_state self) (\<lambda>sst.
     and_then (state_of sm sst) (\<lambda>st1.
     and_then (subsystem_state other) (\<lambda>ost.
     and_then (state_of sm ost) (\<lambda>st2.
       if \<not> st1 = st2 then Inr False
       else if \<not> self_cause_purview = other_cause_purview then Inr False
       else if \<not> self_effect_purview = other_effect_purview then Inr False
       else
     and_then (eq_repertoires self other) (\<lambda>r.
       if \<not> r then Inr False else
     and_then (subsystem_network self) (\<lambda>n1.
     and_then (subsystem_network other) (\<lambda>n2.
       Inr (n1 = n2))))))))))))))))"

section \<open>The containers as typed records\<close>

text \<open>
  \<open>Mip\<close> is a namedtuple of seven fields. The mechanism and the purview are tuples of node
  indices or \<open>None\<close>, the partition is a tuple of Parts or \<open>None\<close>, and a repertoire is an array
  or \<open>None\<close> (as in \<open>_null_mip\<close>). A Mice wraps one Mip and shows its fields as properties.
  A Concept holds two Mices or \<open>None\<close>, and its subsystem, an object of a collaborator.
  A BigMip holds two constellations (tuples of Concepts) and two subsystems.
\<close>

type_synonym ndarray = "nat list \<times> real list"

record mip =
  phi :: real
  direction :: string
  mechanism :: "nat list option"
  purview :: "nat list option"
  mip_partition :: "(nat list \<times> nat list) list option"
  unpartitioned_repertoire :: "ndarray option"
  partitioned_repertoire :: "ndarray option"

record concept =
  c_phi :: real
  c_mechanism :: "nat list"
  cause :: "mip option"
  effect :: "mip option"
  c_subsystem :: pyval
  normalized :: bool
  time :: "real option"

record big_mip =
  b_phi :: real
  unpartitioned_constellation :: "concept list"
  partitioned_constellation :: "concept list"
  b_subsystem :: pyval
  cut_subsystem :: pyval
  b_time :: "real option"
  small_phi_time :: "real option"

definition py_tuple :: "nat list \<Rightarrow> pyval" where
  "py_tuple xs = PyTuple (map (\<lambda>i. PyNum (of_nat i)) xs)"

definition py_opt :: "('a \<Rightarrow> pyval) \<Rightarrow> 'a option \<Rightarrow> pyval" where
  "py_opt f v = (case v of None \<Rightarrow> PyNone | Some x \<Rightarrow> f x)"

definition py_array :: "ndarray \<Rightarrow> pyval" where
  "py_array a = PyArray (fst a) (snd a)"

definition py_partition :: "(nat list \<times> nat list) list \<Rightarrow> pyval" where
  \<comment> \<open>A tuple of Parts; \<open>Part\<close> is a namedtuple \<open>(mechanism, purview)\<close>.\<close>
  "py_partition ps = PyTuple (map (\<lambda>p. PyTuple [py_tuple (fst p), py_tuple (snd p)]) ps)"

definition py_bool :: "bool \<Rightarrow> pyval" where
  \<comment> \<open>Python's \<open>True\<close> and \<open>False\<close> are the integers 1 and 0.\<close>
  "py_bool b = PyNum (if b then 1 else 0)"

definition mip_obj :: "mip \<Rightarrow> pyval" where
  "mip_obj m = PyObj ''Mip''
     [(''phi'', PyNum (phi m)),
      (''direction'', PyStr (direction m)),
      (''mechanism'', py_opt py_tuple (mechanism m)),
      (''purview'', py_opt py_tuple (purview m)),
      (''partition'', py_opt py_partition (mip_partition m)),
      (''unpartitioned_repertoire'', py_opt py_array (unpartitioned_repertoire m)),
      (''partitioned_repertoire'', py_opt py_array (partitioned_repertoire m))]"

definition mice_obj :: "mip \<Rightarrow> pyval" where
  \<comment> \<open>\<open>Mice(mip)\<close> with its properties \<open>phi\<close>, \<open>direction\<close>, \<open>mechanism\<close>, \<open>purview\<close>,
      \<open>repertoire\<close> and \<open>mip\<close>.\<close>
  "mice_obj m = PyObj ''Mice''
     [(''_mip'', mip_obj m),
      (''phi'', PyNum (phi m)),
      (''direction'', PyStr (direction m)),
      (''mechanism'', py_opt py_tuple (mechanism m)),
      (''purview'', py_opt py_tuple (purview m)),
      (''repertoire'', py_opt py_array (unpartitioned_repertoire m)),
      (''mip'', mip_obj m)]"

definition concept_obj :: "concept \<Rightarrow> pyval" where
  "concept_obj c = PyObj ''Concept''
     [(''phi'', PyNum (c_phi c)),
      (''mechanism'', py_tuple (c_mechanism c)),
      (''cause'', py_opt mice_obj (cause c)),
      (''effect'', py_opt mice_obj (effect c)),
      (''subsystem'', c_subsystem c),
      (''normalized'', py_bool (normalized c)),
      (''time'', py_opt PyNum (time c))]"

definition big_mip_obj :: "big_mip \<Rightarrow> pyval" where
  "big_mip_obj b = PyObj ''BigMip''
     [(''phi'', PyNum (b_phi b)),
      (''unpartitioned_constellation'', PyTuple (map concept_obj (unpartitioned_constellation b))),
      (''partitioned_constellation'', PyTuple (map concept_obj (partitioned_constellation b))),
      (''subsystem'', b_subsystem b),
      (''cut_subsystem'', cut_subsystem b),
      (''time'', py_opt PyNum (b_time b)),
      (''small_phi_time'', py_opt PyNum (small_phi_time b))]"

section \<open>Ordering\<close>

text \<open>
  A rich comparison returns a bool or, through the decorator \<open>sametype\<close>, the constant
  \<open>NotImplemented\<close>.
\<close>

datatype cmp = NotImplemented | Bool bool

fun same_type :: "pyval \<Rightarrow> pyval \<Rightarrow> bool" where
  \<comment> \<open>\<open>type(other) is type(self)\<close>, for \<open>self\<close> an object of one of the container classes.\<close>
  "same_type (PyObj c attrs) (PyObj c' attrs') = (c = c')"
| "same_type _ _ = False"

fun str_lt :: "string \<Rightarrow> string \<Rightarrow> bool" where
  \<comment> \<open>\<open><\<close> on strings: by the first character that differs, else by length.\<close>
  "str_lt [] [] = False"
| "str_lt [] (d # ds) = True"
| "str_lt (c # cs) [] = False"
| "str_lt (c # cs) (d # ds) = (if c = d then str_lt cs ds else (of_char c :: nat) < of_char d)"

fun py_lt :: "pyval \<Rightarrow> pyval \<Rightarrow> error + bool"
  and py_lt_list :: "pyval list \<Rightarrow> pyval list \<Rightarrow> error + bool" where
  \<comment> \<open>\<open><\<close> on values, and on the lists that \<open>_order_by\<close> returns: Python looks for the first
      position where the two lists differ (by \<open>==\<close>) and compares the elements there; with no
      such position the shorter list is the smaller.\<close>
  "py_lt (PyNum x) (PyNum y) = Inr (x < y)"
| "py_lt (PyStr s) (PyStr t) = Inr (str_lt s t)"
| "py_lt (PyTuple xs) (PyTuple ys) = py_lt_list xs ys"
| "py_lt _ _ = Inl TypeError"
| "py_lt_list [] [] = Inr False"
| "py_lt_list [] (y # ys) = Inr True"
| "py_lt_list (x # xs) [] = Inr False"
| "py_lt_list (x # xs) (y # ys) = (if x = y then py_lt_list xs ys else py_lt x y)"

definition len_of_attr :: "pyval \<Rightarrow> string \<Rightarrow> error + pyval" where
  \<comment> \<open>\<open>len(self.name)\<close>\<close>
  "len_of_attr self name =
     and_then (getattr self name) (\<lambda>v. and_then (py_len v) (\<lambda>n. Inr (PyNum (of_nat n))))"

definition PhiMechanismOrdering_order_by :: "pyval \<Rightarrow> error + pyval list" where
  \<comment> \<open>\<open>_PhiMechanismOrdering._order_by\<close>\<close>
  "PhiMechanismOrdering_order_by self =
     and_then (getattr self ''phi'') (\<lambda>p.
     and_then (len_of_attr self ''mechanism'') (\<lambda>m. Inr [p, m]))"

definition PhiMechanismPurviewOrdering_order_by :: "pyval \<Rightarrow> error + pyval list" where
  \<comment> \<open>\<open>_PhiMechanismPurviewOrdering._order_by\<close>\<close>
  "PhiMechanismPurviewOrdering_order_by self =
     and_then (getattr self ''phi'') (\<lambda>p.
     and_then (len_of_attr self ''mechanism'') (\<lambda>m.
     and_then (len_of_attr self ''purview'') (\<lambda>u. Inr [p, m, u])))"

definition PhiSubsystemOrdering_order_by :: "pyval \<Rightarrow> error + pyval list" where
  \<comment> \<open>\<open>_PhiSubsystemOrdering._order_by\<close>\<close>
  "PhiSubsystemOrdering_order_by self =
     and_then (getattr self ''phi'') (\<lambda>p.
     and_then (len_of_attr self ''subsystem'') (\<lambda>s. Inr [p, s]))"

fun order_by :: "pyval \<Rightarrow> error + pyval list" where
  \<comment> \<open>\<open>self._order_by()\<close>, by the base classes: \<open>class Mip(_PhiMechanismPurviewOrdering, ...)\<close>,
      \<open>class Mice(_PhiMechanismPurviewOrdering)\<close>, \<open>class Concept(_PhiMechanismOrdering)\<close>,
      \<open>class BigMip(_PhiSubsystemOrdering)\<close>; \<open>_Ordering._order_by\<close> itself raises.\<close>
  "order_by (PyObj cls attrs) =
     (if cls = ''Mip'' \<or> cls = ''Mice'' then PhiMechanismPurviewOrdering_order_by (PyObj cls attrs)
      else if cls = ''Concept'' then PhiMechanismOrdering_order_by (PyObj cls attrs)
      else if cls = ''BigMip'' then PhiSubsystemOrdering_order_by (PyObj cls attrs)
      else Inl NotImplementedError)"
| "order_by _ = Inl NotImplementedError"

definition lt :: "pyval \<Rightarrow> pyval \<Rightarrow> error + cmp" where
  \<comment> \<open>\<open>_Ordering.__lt__\<close>\<close>
  "lt self other =
     (if \<not> same_type self other then Inr NotImplemented
      else and_then (order_by self) (\<lambda>k. and_then (order_by other) (\<lambda>k'.
             and_then (py_lt_list k k') (\<lambda>r. Inr (Bool r)))))"

definition less_operator :: "pyval \<Rightarrow> pyval \<Rightarrow> error + bool" where
  \<comment> \<open>The expression \<open>a < b\<close> inside a comparison method: \<open>a.__lt__(b)\<close>; when that and the
      reflected method return \<open>NotImplemented\<close>, Python raises TypeError.\<close>
  "less_operator a b =
     and_then (lt a b) (\<lambda>r. case r of Bool v \<Rightarrow> Inr v | NotImplemented \<Rightarrow> Inl TypeError)"

definition attr_phi_eq :: "real \<Rightarrow> pyval \<Rightarrow> pyval \<Rightarrow> error + bool" where
  \<comment> \<open>\<open>utils.phi_eq(self.phi, other.phi)\<close>\<close>
  "attr_phi_eq eps self other =
     and_then (getattr self ''phi'') (\<lambda>p. and_then (getattr other ''phi'') (\<lambda>p'.
       py_phi_eq eps p p'))"

definition le :: "real \<Rightarrow> pyval \<Rightarrow> pyval \<Rightarrow> error + cmp" where
  \<comment> \<open>\<open>_Ordering.__le__\<close>: \<open>self < other or utils.phi_eq(self.phi, other.phi)\<close>\<close>
  "le eps self other =
     (if \<not> same_type self other then Inr NotImplemented
      else and_then (less_operator self other) (\<lambda>l.
             if l then Inr (Bool True)
             else and_then (attr_phi_eq eps self other) (\<lambda>r. Inr (Bool r))))"

definition gt :: "pyval \<Rightarrow> pyval \<Rightarrow> error + cmp" where
  \<comment> \<open>\<open>_Ordering.__gt__\<close>: \<open>other < self\<close>\<close>
  "gt self other =
     (if \<not> same_type self other then Inr NotImplemented
      else and_then (less_operator other self) (\<lambda>l. Inr (Bool l)))"


section \<open>The properties, in the words of the specification\<close>

definition mechanisms_equal_as_sets :: "nat list option \<Rightarrow> nat list option \<Rightarrow> bool" where
  \<comment> \<open>Two mechanisms are equal as sets: both are tuples, with the same elements. \<open>None\<close> is
      no set.\<close>
  "mechanisms_equal_as_sets x y =
     (case (x, y) of (Some xs, Some ys) \<Rightarrow> set xs = set ys | _ \<Rightarrow> False)"

definition purview_lengths_agree :: "nat list option \<Rightarrow> nat list option \<Rightarrow> bool" where
  \<comment> \<open>When both purviews are present (not \<open>None\<close>, not empty), their lengths are equal.\<close>
  "purview_lengths_agree p q =
     (case (p, q) of
        (Some xs, Some ys) \<Rightarrow> xs \<noteq> [] \<and> ys \<noteq> [] \<longrightarrow> length xs = length ys
      | _ \<Rightarrow> True)"

fun key_less :: "real list \<Rightarrow> real list \<Rightarrow> bool" where
  \<comment> \<open>One ordering key is lexicographically less than another.\<close>
  "key_less [] [] = False"
| "key_less [] (y # ys) = True"
| "key_less (x # xs) [] = False"
| "key_less (x # xs) (y # ys) = (x < y \<or> (x = y \<and> key_less xs ys))"

section \<open>Example inputs\<close>

definition example_mice :: mice_view where
  "example_mice = \<lparr>mv_direction = ''past'', mv_mechanism = [0], mv_purview = [1]\<rparr>"

definition example_subsystem :: subsystem where
  "example_subsystem =
     \<lparr>network_size = 3, node_indices = [0, 1, 2],
      subsystem_cut = \<lparr>severed = [1, 2], intact = [0]\<rparr>,
      subsystem_cut_matrix = [[0, 0, 0], [1, 0, 0], [1, 0, 0]]\<rparr>"

definition example_mip :: mip where
  "example_mip =
     \<lparr>phi = 1, direction = ''past'', mechanism = Some [0, 1], purview = Some [2],
      mip_partition = Some [([0], [2]), ([1], [])],
      unpartitioned_repertoire = Some ([2], [1 / 2, 1 / 2]),
      partitioned_repertoire = Some ([2], [1 / 4, 3 / 4])\<rparr>"

definition example_mip_other :: mip where
  "example_mip_other =
     \<lparr>phi = 1 + 1 / 10 ^ 7, direction = ''past'', mechanism = Some [1, 0, 1],
      purview = Some [0], mip_partition = None,
      unpartitioned_repertoire = Some ([2], [1 / 2, 1 / 2]),
      partitioned_repertoire = None\<rparr>"

definition example_concept :: concept where
  "example_concept =
     \<lparr>c_phi = 1, c_mechanism = [0, 1], cause = Some example_mip,
      effect = Some (example_mip\<lparr>direction := ''future''\<rparr>),
      c_subsystem = PyObj ''Subsystem''
        [(''state'', PyTuple [PyNum 1, PyNum 0, PyNum 0]),
         (''network'', PyObj ''Network'' [(''size'', PyNum 3)])],
      normalized = False, time = None\<rparr>"

definition example_big_mip :: big_mip where
  "example_big_mip =
     \<lparr>b_phi = 1 / 2, unpartitioned_constellation = [example_concept],
      partitioned_constellation = [],
      b_subsystem = PyObj ''Subsystem'' [(''__len__'', PyNum 3)],
      cut_subsystem = PyObj ''Subsystem'' [(''__len__'', PyNum 3)],
      b_time = None, small_phi_time = None\<rparr>"

section \<open>Cuts: splitting a mechanism, the cut matrix\<close>

text \<open>
  C5. For every mechanism and every Cut, \<open>splits_mechanism\<close> is true iff the mechanism has
  an element in \<open>severed\<close> and an element in \<open>intact\<close>.
\<close>

theorem splits_mechanism_iff:
  "truthy_set (splits_mechanism c m) \<longleftrightarrow>
     set m \<inter> set (severed c) \<noteq> {} \<and> set m \<inter> set (intact c) \<noteq> {}"
  by (simp add: splits_mechanism_def truthy_set_def Let_def)

theorem splits_mechanism_iff_witness:
  "truthy_set (splits_mechanism \<lparr>severed = [0], intact = [1, 2]\<rparr> [0, 1]) \<and>
   \<not> truthy_set (splits_mechanism \<lparr>severed = [0], intact = [1, 2]\<rparr> [1, 2])"
  using splits_mechanism_iff [of "\<lparr>severed = [0], intact = [1, 2]\<rparr>" "[0, 1]"]
        splits_mechanism_iff [of "\<lparr>severed = [0], intact = [1, 2]\<rparr>" "[1, 2]"]
  by simp

lemma relevant_connections_length: "length (relevant_connections n f t) = n"
  by (simp add: relevant_connections_def)

lemma relevant_connections_row: "i < n \<Longrightarrow> length (relevant_connections n f t ! i) = n"
  by (simp add: relevant_connections_def)

lemma relevant_connections_entry:
  "i < n \<Longrightarrow> j < n \<Longrightarrow>
   relevant_connections n f t ! i ! j = (if i \<in> set f \<and> j \<in> set t then 1 else 0)"
  by (simp add: relevant_connections_def)

lemma submatrix_relevant_connections:
  assumes "\<forall>i \<in> set idx. i < n"
  shows "submatrix (relevant_connections n f t) idx idx =
     Inr (map (\<lambda>i. map (\<lambda>j. if i \<in> set f \<and> j \<in> set t then 1 else 0) idx) idx)"
  using assms
  by (simp add: submatrix_def relevant_connections_length relevant_connections_row
      relevant_connections_entry)






section \<open>A Mice damaged by a cut\<close>

lemma any_equal_one_product:
  assumes "length a = k" "\<forall>r \<in> set a. length r = k"
      and "length b = k" "\<forall>r \<in> set b. length r = k"
  shows "\<exists>p. elementwise_product a b = Inr p \<and>
           (any_equal_one p \<longleftrightarrow> (\<exists>i<k. \<exists>j<k. a ! i ! j * b ! i ! j = 1))"
proof -
  have shape: "same_shape a b"
    using assms by (simp add: same_shape_def list_all2_conv_all_nth)
  define p where "p = map2 (\<lambda>r r'. map2 (\<lambda>x y. x * y) r r') a b"
  have len: "length p = k" using assms by (simp add: p_def)
  have row: "p ! i = map2 (\<lambda>x y. x * y) (a ! i) (b ! i)" if "i < k" for i
    using that assms by (simp add: p_def)
  have rowlen: "length (p ! i) = k" if "i < k" for i
    using that assms by (simp add: row)
  have entry: "p ! i ! j = a ! i ! j * b ! i ! j" if "i < k" "j < k" for i j
    using that assms by (simp add: row)
  have "any_equal_one p \<longleftrightarrow> (\<exists>i<length p. \<exists>j<length (p ! i). p ! i ! j = 1)"
    unfolding any_equal_one_def by (metis in_set_conv_nth)
  also have "\<dots> \<longleftrightarrow> (\<exists>i<k. \<exists>j<k. p ! i ! j = 1)"
    using len rowlen by (metis (no_types, lifting))
  also have "\<dots> \<longleftrightarrow> (\<exists>i<k. \<exists>j<k. a ! i ! j * b ! i ! j = 1)"
    using entry by (metis (no_types, lifting))
  finally show ?thesis using shape by (simp add: elementwise_product_def p_def)
qed

text \<open>
  C1. For a Mice whose direction is CAUSE or EFFECT and whose mechanism and purview lie in
  the network, and a subsystem whose node indices lie in the network and whose cut matrix has one row and one column for each node index,
  \<open>damaged_by_cut\<close> returns, and is true iff the cut splits the mechanism or some entry of
  the product of the relevant connections with the cut matrix is 1. The relevant connections
  are built at the size of the network and restricted to the node indices: the entry for the
  node indices i and j is 1 iff i is in the purview and j in the mechanism (CAUSE), or i is
  in the mechanism and j in the purview (EFFECT).
\<close>

theorem damaged_by_cut_iff:
  assumes dir: "mv_direction m = DIRECTIONS_PAST \<or> mv_direction m = DIRECTIONS_FUTURE"
      and idx: "\<forall>i \<in> set (node_indices s). i < network_size s"
      and net: "\<forall>i \<in> set (mv_mechanism m) \<union> set (mv_purview m). i < network_size s"
      and rows: "length (subsystem_cut_matrix s) = length (node_indices s)"
      and cols: "\<forall>r \<in> set (subsystem_cut_matrix s). length r = length (node_indices s)"
  shows "damaged_by_cut m s =
     Inr (truthy_set (splits_mechanism (subsystem_cut s) (mv_mechanism m)) \<or>
          (\<exists>i<length (node_indices s). \<exists>j<length (node_indices s).
             (if node_indices s ! i \<in>
                   set (if mv_direction m = DIRECTIONS_PAST then mv_purview m else mv_mechanism m) \<and>
                 node_indices s ! j \<in>
                   set (if mv_direction m = DIRECTIONS_PAST then mv_mechanism m else mv_purview m)
              then 1 else 0) * subsystem_cut_matrix s ! i ! j = 1))"
proof -
  let ?k = "length (node_indices s)"
  let ?f = "if mv_direction m = DIRECTIONS_PAST then mv_purview m else mv_mechanism m"
  let ?t = "if mv_direction m = DIRECTIONS_PAST then mv_mechanism m else mv_purview m"
  let ?rc = "map (\<lambda>i. map (\<lambda>j. if i \<in> set ?f \<and> j \<in> set ?t then 1 else (0::int))
                (node_indices s)) (node_indices s)"
  have rc: "mice_relevant_connections m s = Inr ?rc"
    using dir idx by (auto simp: mice_relevant_connections_def submatrix_relevant_connections)
  have "length ?rc = ?k" "\<forall>r \<in> set ?rc. length r = ?k" by auto
  from any_equal_one_product [OF this rows cols]
  obtain p where p: "elementwise_product ?rc (subsystem_cut_matrix s) = Inr p"
    and any: "any_equal_one p \<longleftrightarrow>
                (\<exists>i<?k. \<exists>j<?k. ?rc ! i ! j * subsystem_cut_matrix s ! i ! j = 1)"
    by blast
  have "(\<exists>i<?k. \<exists>j<?k. ?rc ! i ! j * subsystem_cut_matrix s ! i ! j = 1) \<longleftrightarrow>
        (\<exists>i<?k. \<exists>j<?k.
            (if node_indices s ! i \<in> set ?f \<and> node_indices s ! j \<in> set ?t then 1 else 0)
            * subsystem_cut_matrix s ! i ! j = 1)"
    by (intro ex_cong1 conj_cong refl) simp
  with any have any': "any_equal_one p \<longleftrightarrow>
        (\<exists>i<?k. \<exists>j<?k.
            (if node_indices s ! i \<in> set ?f \<and> node_indices s ! j \<in> set ?t then 1 else 0)
            * subsystem_cut_matrix s ! i ! j = 1)"
    by simp
  show ?thesis
  proof (cases "truthy_set (splits_mechanism (subsystem_cut s) (mv_mechanism m))")
    case True
    then show ?thesis by (simp add: damaged_by_cut_def)
  next
    case False
    then show ?thesis using rc p any' by (simp add: damaged_by_cut_def)
  qed
qed

text \<open>
  A core cause with mechanism (0,) and purview (1,) in a three-node subsystem whose cut
  severs the connections from nodes 1 and 2 to node 0: the cut does not split the mechanism,
  and the severed connection from 1 to 0 is relevant, so the Mice is damaged.
\<close>

theorem damaged_by_cut_iff_witness:
  "mv_direction example_mice = DIRECTIONS_PAST \<and>
   node_indices example_subsystem = [0, 1, 2] \<and>
   network_size example_subsystem = 3 \<and>
   subsystem_cut_matrix example_subsystem = [[0, 0, 0], [1, 0, 0], [1, 0, 0]] \<and>
   \<not> truthy_set (splits_mechanism (subsystem_cut example_subsystem) (mv_mechanism example_mice)) \<and>
   damaged_by_cut example_mice example_subsystem = Inr True"
proof -
  have d: "mv_direction example_mice = DIRECTIONS_PAST"
    by (simp add: example_mice_def DIRECTIONS_PAST_def)
  have v: "node_indices example_subsystem = [0, 1, 2]" "network_size example_subsystem = 3"
    "subsystem_cut_matrix example_subsystem = [[0, 0, 0], [1, 0, 0], [1, 0, 0]]"
    by (simp_all add: example_subsystem_def)
  have h1: "mv_direction example_mice = DIRECTIONS_PAST \<or>
            mv_direction example_mice = DIRECTIONS_FUTURE"
    by (simp add: example_mice_def DIRECTIONS_PAST_def)
  have h2: "\<forall>i \<in> set (node_indices example_subsystem). i < network_size example_subsystem"
    by (simp add: example_subsystem_def)
  have h2': "\<forall>i \<in> set (mv_mechanism example_mice) \<union> set (mv_purview example_mice).
               i < network_size example_subsystem"
    by (simp add: example_subsystem_def example_mice_def)
  have h3: "length (subsystem_cut_matrix example_subsystem) =
            length (node_indices example_subsystem)"
    by (simp add: example_subsystem_def)
  have h4: "\<forall>r \<in> set (subsystem_cut_matrix example_subsystem).
              length r = length (node_indices example_subsystem)"
    by (simp add: example_subsystem_def)
  have ns: "\<not> truthy_set (splits_mechanism (subsystem_cut example_subsystem)
              (mv_mechanism example_mice))"
    by (simp add: example_subsystem_def example_mice_def splits_mechanism_def truthy_set_def)
  have ex: "\<exists>i<length (node_indices example_subsystem).
            \<exists>j<length (node_indices example_subsystem).
             (if node_indices example_subsystem ! i \<in>
                   set (if mv_direction example_mice = DIRECTIONS_PAST
                        then mv_purview example_mice else mv_mechanism example_mice) \<and>
                 node_indices example_subsystem ! j \<in>
                   set (if mv_direction example_mice = DIRECTIONS_PAST
                        then mv_mechanism example_mice else mv_purview example_mice)
              then 1 else 0) * subsystem_cut_matrix example_subsystem ! i ! j = 1"
    by (rule exI [of _ 1], simp add: example_subsystem_def example_mice_def DIRECTIONS_PAST_def,
        rule exI [of _ 0], simp)
  from damaged_by_cut_iff [OF h1 h2 h2' h3 h4] ex
  have "damaged_by_cut example_mice example_subsystem = Inr True" by simp
  with d v ns show ?thesis by blast
qed

section \<open>Equality of Mips\<close>

lemma getattr_mip_obj:
  "getattr (mip_obj m) ''phi'' = Inr (PyNum (phi m))"
  "getattr (mip_obj m) ''direction'' = Inr (PyStr (direction m))"
  "getattr (mip_obj m) ''mechanism'' = Inr (py_opt py_tuple (mechanism m))"
  "getattr (mip_obj m) ''purview'' = Inr (py_opt py_tuple (purview m))"
  "getattr (mip_obj m) ''unpartitioned_repertoire'' =
     Inr (py_opt py_array (unpartitioned_repertoire m))"
  by (simp_all add: mip_obj_def)

lemma py_tuple_neq_None [simp]: "py_tuple xs \<noteq> PyNone" "PyNone \<noteq> py_tuple xs"
  by (simp_all add: py_tuple_def)

lemma py_set_py_tuple: "py_set (py_tuple xs) = Inr ((\<lambda>i. PyNum (of_nat i)) ` set xs)"
  by (simp add: py_tuple_def list_all_iff)

lemma py_num_image_eq:
  "((\<lambda>i::nat. PyNum (of_nat i)) ` A = (\<lambda>i. PyNum (of_nat i)) ` B) = (A = B)"
  by (rule inj_image_eq_iff) (simp add: inj_on_def)

lemma truthy_opt_tuple:
  "truthy (py_opt py_tuple p) = Inr (p \<noteq> None \<and> p \<noteq> Some [])"
  by (cases p) (auto simp: py_opt_def py_tuple_def)

lemma truthy_py_tuple: "truthy (py_tuple xs) = Inr (xs \<noteq> [])"
  by (simp add: py_tuple_def)

lemma py_len_py_tuple: "py_len (py_tuple xs) = Inr (length xs)"
  by (simp add: py_tuple_def)

lemma numpy_aware_eq_opt_array:
  "numpy_aware_eq (py_opt py_array r) (py_opt py_array r') = (r = r')"
proof -
  have inj: "(map PyNum d = map PyNum d') = (d = d')" for d d'
    by (simp add: inj_map_eq_map inj_on_def)
  show ?thesis
    by (cases r; cases r')
       (auto simp: py_opt_def py_array_def np_array_equal_def inj prod_eq_iff)
qed

lemma general_eq_loop_mip_obj:
  "general_eq_loop eps (mip_obj a) (mip_obj b) mip_eq_attrs =
     Inr (phi_eq eps (phi a) (phi b) \<and> direction a = direction b \<and>
          mechanisms_equal_as_sets (mechanism a) (mechanism b) \<and>
          unpartitioned_repertoire a = unpartitioned_repertoire b)"
proof -
  have mech: "(if py_opt py_tuple (mechanism a) = PyNone \<or>
                  (py_opt py_tuple (mechanism b) = PyNone \<and>
                   \<not> py_opt py_tuple (mechanism a) = py_opt py_tuple (mechanism b))
               then Inr False
               else and_then (py_set (py_opt py_tuple (mechanism a))) (\<lambda>sa.
                    and_then (py_set (py_opt py_tuple (mechanism b))) (\<lambda>sb.
                      if \<not> sa = sb then Inr False else k)))
              = (if mechanisms_equal_as_sets (mechanism a) (mechanism b) then k else Inr False)"
    for k :: "error + bool"
    by (cases "mechanism a"; cases "mechanism b")
       (simp_all add: py_opt_def mechanisms_equal_as_sets_def py_set_py_tuple and_then_def
          py_num_image_eq)
  show ?thesis
    unfolding mip_eq_attrs_def
    by (simp add: getattr_mip_obj and_then_def mech numpy_aware_eq_opt_array)
qed

lemma general_eq_mip_obj:
  "general_eq eps (mip_obj a) (mip_obj b) mip_eq_attrs =
     Inr (phi_eq eps (phi a) (phi b) \<and> direction a = direction b \<and>
          mechanisms_equal_as_sets (mechanism a) (mechanism b) \<and>
          unpartitioned_repertoire a = unpartitioned_repertoire b)"
  by (simp add: general_eq_def general_eq_loop_mip_obj)

lemma Mip_eq_mip_obj:
  "Mip_eq eps (mip_obj a) (mip_obj b) =
     Inr (phi_eq eps (phi a) (phi b) \<and> direction a = direction b \<and>
          mechanisms_equal_as_sets (mechanism a) (mechanism b) \<and>
          unpartitioned_repertoire a = unpartitioned_repertoire b \<and>
          purview_lengths_agree (purview a) (purview b))"
proof (cases "purview a")
  case None
  then show ?thesis
    by (simp add: Mip_eq_def getattr_mip_obj and_then_def truthy_opt_tuple general_eq_mip_obj
        purview_lengths_agree_def)
next
  case a: (Some xs)
  show ?thesis
  proof (cases "purview b")
    case None
    then show ?thesis using a
      by (simp add: Mip_eq_def getattr_mip_obj and_then_def truthy_opt_tuple general_eq_mip_obj
          purview_lengths_agree_def)
  next
    case (Some ys)
    then show ?thesis using a
      by (auto simp: Mip_eq_def getattr_mip_obj and_then_def truthy_opt_tuple general_eq_mip_obj
          purview_lengths_agree_def py_opt_def py_len_py_tuple truthy_py_tuple)
  qed
qed

text \<open>
  C2. For every two Mips a and b, \<open>a == b\<close> returns, and is true iff the phi values are equal
  up to the precision, the directions are equal, the mechanisms are equal as sets (both are
  tuples, with the same elements), the unpartitioned repertoires are equal (both \<open>None\<close>, or
  arrays of one shape with the same elements), and, when both purviews are present (not
  \<open>None\<close>, not empty), they have the same length. The partition, the partitioned repertoire
  and the elements of the purviews do not occur in the condition.
\<close>

theorem Mip_eq_iff:
  "Mip_eq eps (mip_obj a) (mip_obj b) =
     Inr (phi_eq eps (phi a) (phi b) \<and> direction a = direction b \<and>
          mechanisms_equal_as_sets (mechanism a) (mechanism b) \<and>
          unpartitioned_repertoire a = unpartitioned_repertoire b \<and>
          purview_lengths_agree (purview a) (purview b))"
  by (rule Mip_eq_mip_obj)

text \<open>
  Two Mips that differ in phi by less than the precision, in the order and repetition of the
  mechanism, in the element of the purview, in the partition and in the partitioned
  repertoire are equal; with purviews of different lengths they are not.
\<close>

theorem Mip_eq_iff_witness:
  "Mip_eq (1 / 10 ^ 6) (mip_obj example_mip) (mip_obj example_mip_other) = Inr True \<and>
   Mip_eq (1 / 10 ^ 6) (mip_obj example_mip)
     (mip_obj (example_mip_other\<lparr>purview := Some [0, 1]\<rparr>)) = Inr False"
  using Mip_eq_iff [of "1 / 10 ^ 6" example_mip example_mip_other]
        Mip_eq_iff [of "1 / 10 ^ 6" example_mip "example_mip_other\<lparr>purview := Some [0, 1]\<rparr>"]
  by (simp add: example_mip_def example_mip_other_def phi_eq_def mechanisms_equal_as_sets_def
      purview_lengths_agree_def insert_commute)

text \<open>
  C10. For every Mip whose mechanism is \<open>None\<close>, \<open>m == m\<close> is false: \<open>_general_eq\<close> returns
  False as soon as the left mechanism is \<open>None\<close>.
\<close>

theorem Mip_eq_not_reflexive_at_None:
  assumes "mechanism m = None"
  shows "Mip_eq eps (mip_obj m) (mip_obj m) = Inr False"
  using assms by (simp add: Mip_eq_mip_obj mechanisms_equal_as_sets_def)

theorem Mip_eq_not_reflexive_at_None_witness:
  "mechanism (example_mip\<lparr>mechanism := None\<rparr>) = None \<and>
   Mip_eq (1 / 10 ^ 6) (mip_obj (example_mip\<lparr>mechanism := None\<rparr>))
     (mip_obj (example_mip\<lparr>mechanism := None\<rparr>)) = Inr False"
  using Mip_eq_not_reflexive_at_None [of "example_mip\<lparr>mechanism := None\<rparr>" "1 / 10 ^ 6"]
  by simp

section \<open>Equality of Concepts, and equality with an object that lacks attributes\<close>

lemma getattr_mice_obj:
  "getattr (mice_obj m) ''phi'' = Inr (PyNum (phi m))"
  "getattr (mice_obj m) ''mechanism'' = Inr (py_opt py_tuple (mechanism m))"
  "getattr (mice_obj m) ''purview'' = Inr (py_opt py_tuple (purview m))"
  "getattr (mice_obj m) ''mip'' = Inr (mip_obj m)"
  by (simp_all add: mice_obj_def)

lemma getattr_concept_obj:
  "getattr (concept_obj c) ''phi'' = Inr (PyNum (c_phi c))"
  "getattr (concept_obj c) ''mechanism'' = Inr (py_tuple (c_mechanism c))"
  "getattr (concept_obj c) ''cause'' = Inr (py_opt mice_obj (cause c))"
  "getattr (concept_obj c) ''effect'' = Inr (py_opt mice_obj (effect c))"
  "getattr (concept_obj c) ''subsystem'' = Inr (c_subsystem c)"
  by (simp_all add: concept_obj_def)

lemma Concept_eq_example_refl:
  "Concept_eq (concept_obj example_concept) (concept_obj example_concept) = Inr True"
  by (simp add: Concept_eq_def getattr_concept_obj and_then_def Let_def example_concept_def
      subsystem_state_def subsystem_network_def state_of_def py_tuple_def eq_repertoires_def
      np_array_equal_def)

text \<open>
  C7 says that every container compares phi up to the precision. \<open>Concept.__eq__\<close> does
  not: it evaluates \<open>self.phi == other.phi\<close>, so two Concepts whose phi values differ at all
  are unequal, however close the values are.
\<close>

theorem Concept_eq_exact_phi:
  assumes "c_phi c \<noteq> c_phi d"
  shows "Concept_eq (concept_obj c) (concept_obj d) = Inr False"
  using assms by (simp add: Concept_eq_def getattr_concept_obj and_then_def Let_def)

text \<open>
  Two Concepts that differ only in phi, by one part in ten million, at a precision of one
  part in a million: \<open>phi_eq\<close> holds and \<open>==\<close> is false, while the Concept is equal to itself.
\<close>

theorem Concept_eq_exact_phi_witness:
  "c_phi example_concept \<noteq> c_phi (example_concept\<lparr>c_phi := 1 + 1 / 10 ^ 7\<rparr>) \<and>
   phi_eq (1 / 10 ^ 6) (c_phi example_concept)
     (c_phi (example_concept\<lparr>c_phi := 1 + 1 / 10 ^ 7\<rparr>)) \<and>
   Concept_eq (concept_obj example_concept)
     (concept_obj (example_concept\<lparr>c_phi := 1 + 1 / 10 ^ 7\<rparr>)) = Inr False \<and>
   Concept_eq (concept_obj example_concept) (concept_obj example_concept) = Inr True"
proof -
  have h: "c_phi example_concept \<noteq> c_phi (example_concept\<lparr>c_phi := 1 + 1 / 10 ^ 7\<rparr>)"
    by (simp add: example_concept_def)
  have p: "phi_eq (1 / 10 ^ 6) (c_phi example_concept)
             (c_phi (example_concept\<lparr>c_phi := 1 + 1 / 10 ^ 7\<rparr>))"
    by (simp add: example_concept_def phi_eq_def)
  from Concept_eq_exact_phi [OF h] h p Concept_eq_example_refl show ?thesis
    by blast
qed

text \<open>
  C8 says that equality with an object that lacks an expected attribute is false. That holds
  inside \<open>_general_eq\<close>, which catches the AttributeError. \<open>Mice.__eq__\<close> reads \<open>other.mip\<close>,
  \<open>Concept.__eq__\<close> reads \<open>other.cause\<close>, and \<open>Mip.__eq__\<close> reads \<open>other.purview\<close> when its own
  purview is present, all outside that \<open>try\<close>: with an object that has no attributes these
  raise AttributeError, and only a Mip without a purview answers False.
\<close>

theorem eq_missing_attribute_raises:
  "Mice_eq eps (mice_obj m) (PyObj cls []) = Inl AttributeError \<and>
   Concept_eq (concept_obj c) (PyObj cls []) = Inl AttributeError \<and>
   Mip_eq eps (mip_obj m) (PyObj cls []) =
     (if purview m = None \<or> purview m = Some [] then Inr False else Inl AttributeError)"
proof (intro conjI)
  show "Mice_eq eps (mice_obj m) (PyObj cls []) = Inl AttributeError"
    by (simp add: Mice_eq_def getattr_mice_obj and_then_def)
  show "Concept_eq (concept_obj c) (PyObj cls []) = Inl AttributeError"
    by (simp add: Concept_eq_def getattr_concept_obj and_then_def)
  have g: "general_eq eps (mip_obj m) (PyObj cls []) mip_eq_attrs = Inr False"
    by (simp add: general_eq_def mip_eq_attrs_def getattr_mip_obj and_then_def)
  show "Mip_eq eps (mip_obj m) (PyObj cls []) =
     (if purview m = None \<or> purview m = Some [] then Inr False else Inl AttributeError)"
    by (simp add: Mip_eq_def getattr_mip_obj and_then_def truthy_opt_tuple g)
qed

theorem eq_missing_attribute_raises_witness:
  "Mice_eq (1 / 10 ^ 6) (mice_obj example_mip) (PyObj ''object'' []) = Inl AttributeError \<and>
   Concept_eq (concept_obj example_concept) (PyObj ''object'' []) = Inl AttributeError \<and>
   Mip_eq (1 / 10 ^ 6) (mip_obj example_mip) (PyObj ''object'' []) = Inl AttributeError"
  using eq_missing_attribute_raises [of "1 / 10 ^ 6" example_mip "''object''" example_concept]
  by (simp add: example_mip_def)

section \<open>Ordering keys\<close>

lemma py_lt_list_nums: "py_lt_list (map PyNum xs) (map PyNum ys) = Inr (key_less xs ys)"
  by (induction xs ys rule: key_less.induct) auto

lemma order_by_mip_obj:
  assumes "mechanism a = Some ma" "purview a = Some pa"
  shows "order_by (mip_obj a) = Inr (map PyNum [phi a, of_nat (length ma), of_nat (length pa)])"
proof -
  have "order_by (mip_obj a) = PhiMechanismPurviewOrdering_order_by (mip_obj a)"
    by (simp add: mip_obj_def)
  then show ?thesis using assms
    by (simp add: PhiMechanismPurviewOrdering_order_by_def len_of_attr_def getattr_mip_obj
        and_then_def py_opt_def py_len_py_tuple)
qed

lemma order_by_mice_obj:
  assumes "mechanism a = Some ma" "purview a = Some pa"
  shows "order_by (mice_obj a) = Inr (map PyNum [phi a, of_nat (length ma), of_nat (length pa)])"
proof -
  have "order_by (mice_obj a) = PhiMechanismPurviewOrdering_order_by (mice_obj a)"
    by (simp add: mice_obj_def)
  then show ?thesis using assms
    by (simp add: PhiMechanismPurviewOrdering_order_by_def len_of_attr_def getattr_mice_obj
        and_then_def py_opt_def py_len_py_tuple)
qed

lemma order_by_concept_obj:
  "order_by (concept_obj c) = Inr (map PyNum [c_phi c, of_nat (length (c_mechanism c))])"
proof -
  have "order_by (concept_obj c) = PhiMechanismOrdering_order_by (concept_obj c)"
    by (simp add: concept_obj_def)
  then show ?thesis
    by (simp add: PhiMechanismOrdering_order_by_def len_of_attr_def getattr_concept_obj
        and_then_def py_len_py_tuple)
qed

lemma order_by_big_mip_obj:
  assumes "py_len (b_subsystem x) = Inr n"
  shows "order_by (big_mip_obj x) = Inr (map PyNum [b_phi x, of_nat n])"
proof -
  have "order_by (big_mip_obj x) = PhiSubsystemOrdering_order_by (big_mip_obj x)"
    by (simp add: big_mip_obj_def)
  moreover have "getattr (big_mip_obj x) ''phi'' = Inr (PyNum (b_phi x))"
    "getattr (big_mip_obj x) ''subsystem'' = Inr (b_subsystem x)"
    by (simp_all add: big_mip_obj_def)
  ultimately show ?thesis using assms
    by (simp add: PhiSubsystemOrdering_order_by_def len_of_attr_def and_then_def)
qed

lemma same_type_objs [simp]:
  "same_type (mip_obj a) (mip_obj b)" "same_type (mice_obj a) (mice_obj b)"
  "same_type (concept_obj c) (concept_obj d)" "same_type (big_mip_obj x) (big_mip_obj y)"
  by (simp_all add: mip_obj_def mice_obj_def concept_obj_def big_mip_obj_def)

lemma lt_from_keys:
  assumes "same_type a b" "order_by a = Inr (map PyNum k)" "order_by b = Inr (map PyNum k')"
  shows "lt a b = Inr (Bool (key_less k k'))"
  using assms by (simp add: lt_def and_then_def py_lt_list_nums)

lemma lt_mip_obj:
  assumes "mechanism a = Some ma" "purview a = Some pa"
      and "mechanism b = Some mb" "purview b = Some pb"
  shows "lt (mip_obj a) (mip_obj b) =
           Inr (Bool (key_less [phi a, of_nat (length ma), of_nat (length pa)]
                               [phi b, of_nat (length mb), of_nat (length pb)]))"
  by (rule lt_from_keys) (simp_all only: same_type_objs order_by_mip_obj assms)

lemma lt_mice_obj:
  assumes "mechanism a = Some ma" "purview a = Some pa"
      and "mechanism b = Some mb" "purview b = Some pb"
  shows "lt (mice_obj a) (mice_obj b) =
           Inr (Bool (key_less [phi a, of_nat (length ma), of_nat (length pa)]
                               [phi b, of_nat (length mb), of_nat (length pb)]))"
  by (rule lt_from_keys) (simp_all only: same_type_objs order_by_mice_obj assms)

lemma lt_concept_obj:
  "lt (concept_obj c) (concept_obj d) =
     Inr (Bool (key_less [c_phi c, of_nat (length (c_mechanism c))]
                         [c_phi d, of_nat (length (c_mechanism d))]))"
  by (rule lt_from_keys) (simp_all only: same_type_objs order_by_concept_obj)

lemma lt_big_mip_obj:
  assumes "py_len (b_subsystem x) = Inr n" "py_len (b_subsystem y) = Inr n'"
  shows "lt (big_mip_obj x) (big_mip_obj y) =
           Inr (Bool (key_less [b_phi x, of_nat n] [b_phi y, of_nat n']))"
  by (rule lt_from_keys) (simp_all only: same_type_objs order_by_big_mip_obj assms)

text \<open>
  C3, as stated, gives Mip the key [phi, size of the mechanism]. \<open>Mip\<close> is declared with
  \<open>_PhiMechanismPurviewOrdering\<close>, so the size of the purview is compared too: of two Mips
  with the same phi and the same mechanism, the one with the purview (2,) is less than the one
  with the purview (2, 3), although the keys [phi, size of the mechanism] are equal.
\<close>

theorem Mip_lt_key_counterexample:
  "lt (mip_obj example_mip) (mip_obj (example_mip\<lparr>purview := Some [2, 3]\<rparr>)) = Inr (Bool True) \<and>
   \<not> key_less [phi example_mip, of_nat (length [0 :: nat, 1])]
       [phi (example_mip\<lparr>purview := Some [2, 3]\<rparr>), of_nat (length [0 :: nat, 1])] \<and>
   mechanism example_mip = Some [0, 1] \<and>
   mechanism (example_mip\<lparr>purview := Some [2, 3]\<rparr>) = Some [0, 1]"
proof -
  have "lt (mip_obj example_mip) (mip_obj (example_mip\<lparr>purview := Some [2, 3]\<rparr>)) =
          Inr (Bool (key_less [phi example_mip, of_nat (length [0 :: nat, 1]),
                               of_nat (length [2 :: nat])]
                              [phi (example_mip\<lparr>purview := Some [2, 3]\<rparr>),
                               of_nat (length [0 :: nat, 1]), of_nat (length [2 :: nat, 3])]))"
    by (rule lt_mip_obj) (simp_all add: example_mip_def)
  then show ?thesis by (simp add: example_mip_def)
qed

text \<open>
  C3, amended. For every two Mips a and b whose mechanisms and purviews are tuples, \<open>a < b\<close>
  iff [a.phi, len(a.mechanism), len(a.purview)] is lexicographically less than
  [b.phi, len(b.mechanism), len(b.purview)], and the same holds for the Mices that wrap them;
  for every two Concepts c and d, \<open>c < d\<close> iff [c.phi, len(c.mechanism)] is lexicographically
  less than [d.phi, len(d.mechanism)]; for every two BigMips x and y whose subsystems have a
  length, \<open>x < y\<close> iff [x.phi, len(x.subsystem)] is lexicographically less than
  [y.phi, len(y.subsystem)].
\<close>

theorem lt_ordering_keys:
  assumes "mechanism a = Some ma" "purview a = Some pa"
      and "mechanism b = Some mb" "purview b = Some pb"
      and "py_len (b_subsystem x) = Inr n" "py_len (b_subsystem y) = Inr n'"
  shows "lt (mip_obj a) (mip_obj b) =
           Inr (Bool (key_less [phi a, of_nat (length ma), of_nat (length pa)]
                               [phi b, of_nat (length mb), of_nat (length pb)])) \<and>
         lt (mice_obj a) (mice_obj b) =
           Inr (Bool (key_less [phi a, of_nat (length ma), of_nat (length pa)]
                               [phi b, of_nat (length mb), of_nat (length pb)])) \<and>
         lt (concept_obj c) (concept_obj d) =
           Inr (Bool (key_less [c_phi c, of_nat (length (c_mechanism c))]
                               [c_phi d, of_nat (length (c_mechanism d))])) \<and>
         lt (big_mip_obj x) (big_mip_obj y) =
           Inr (Bool (key_less [b_phi x, of_nat n] [b_phi y, of_nat n']))"
  using lt_mip_obj [OF assms(1-4)] lt_mice_obj [OF assms(1-4)] lt_concept_obj [of c d]
    lt_big_mip_obj [OF assms(5,6)]
  by (intro conjI)

theorem lt_ordering_keys_witness:
  "mechanism example_mip = Some [0, 1] \<and> purview example_mip = Some [2] \<and>
   mechanism example_mip_other = Some [1, 0, 1] \<and> purview example_mip_other = Some [0] \<and>
   py_len (b_subsystem example_big_mip) = Inr 3 \<and>
   py_len (b_subsystem (example_big_mip\<lparr>b_phi := 1\<rparr>)) = Inr 3 \<and>
   lt (mip_obj example_mip) (mip_obj example_mip_other) = Inr (Bool True) \<and>
   lt (mice_obj example_mip) (mice_obj example_mip_other) = Inr (Bool True) \<and>
   lt (concept_obj example_concept) (concept_obj (example_concept\<lparr>c_mechanism := [0, 1, 2]\<rparr>)) =
     Inr (Bool True) \<and>
   lt (big_mip_obj example_big_mip) (big_mip_obj (example_big_mip\<lparr>b_phi := 1\<rparr>)) =
     Inr (Bool True)"
proof -
  have h: "mechanism example_mip = Some [0, 1]" "purview example_mip = Some [2]"
    "mechanism example_mip_other = Some [1, 0, 1]" "purview example_mip_other = Some [0]"
    "py_len (b_subsystem example_big_mip) = Inr 3"
    "py_len (b_subsystem (example_big_mip\<lparr>b_phi := 1\<rparr>)) = Inr 3"
    by (simp_all add: example_mip_def example_mip_other_def example_big_mip_def)
  from lt_ordering_keys [OF h, of example_concept "example_concept\<lparr>c_mechanism := [0, 1, 2]\<rparr>"]
  have "lt (mip_obj example_mip) (mip_obj example_mip_other) = Inr (Bool True) \<and>
        lt (mice_obj example_mip) (mice_obj example_mip_other) = Inr (Bool True) \<and>
        lt (concept_obj example_concept)
          (concept_obj (example_concept\<lparr>c_mechanism := [0, 1, 2]\<rparr>)) = Inr (Bool True) \<and>
        lt (big_mip_obj example_big_mip) (big_mip_obj (example_big_mip\<lparr>b_phi := 1\<rparr>)) =
          Inr (Bool True)"
    by (simp add: example_mip_def example_mip_other_def example_concept_def example_big_mip_def)
  with h show ?thesis by blast
qed

section \<open>The comparisons \<open><=\<close> and \<open>>=\<close>\<close>





end
